theory Spec2Isabelle
  imports Complex_Main "HOL-Library.Sublist"
begin

section \<open>Prompt templates\<close>

text \<open>
  The notebooks build every prompt with a Python f-string. An f-string is an ordered
  sequence of literal text and replacement fields; here every field is a bare name
  (\<^verbatim>\<open>{row}\<close>, \<^verbatim>\<open>{context}\<close>, \<^verbatim>\<open>{question}\<close>), looked up in the namespace
  of the enclosing function or cell. A doubled brace in the source text is an escaped
  literal brace and belongs to the literal text with a single brace.
\<close>

datatype part = Lit string | Placeholder string

type_synonym template = "part list"

type_synonym bindings = "string \<rightharpoonup> string"

text \<open>
  Looking up a name that the namespace does not bind raises (Python: NameError, with
  the name in the message); the specification calls this error MissingBindingError.
  \<open>ValueError\<close> is what Python's \<^verbatim>\<open>max\<close> raises on an empty sequence.
\<close>

datatype error = MissingBindingError string | ValueError

fun render :: "template \<Rightarrow> bindings \<Rightarrow> error + string" where
  "render [] B = Inr []"
| "render (Lit s # T) B =
     (case render T B of Inl e \<Rightarrow> Inl e | Inr out \<Rightarrow> Inr (s @ out))"
| "render (Placeholder n # T) B =
     (case B n of
        None \<Rightarrow> Inl (MissingBindingError n)
      | Some v \<Rightarrow> (case render T B of Inl e \<Rightarrow> Inl e | Inr out \<Rightarrow> Inr (v @ out)))"

fun placeholders :: "template \<Rightarrow> string list" where
  "placeholders [] = []"
| "placeholders (Lit s # T) = placeholders T"
| "placeholders (Placeholder n # T) = n # placeholders T"

fun literal_text :: "template \<Rightarrow> string" where
  "literal_text [] = []"
| "literal_text (Lit s # T) = s @ literal_text T"
| "literal_text (Placeholder n # T) = literal_text T"

fun value_of :: "bindings \<Rightarrow> part \<Rightarrow> string" where
  "value_of B (Lit s) = s"
| "value_of B (Placeholder n) = (case B n of Some v \<Rightarrow> v | None \<Rightarrow> [])"

definition brace_free :: "string \<Rightarrow> bool" where
  "brace_free s = (CHR ''{'' \<notin> set s \<and> CHR ''}'' \<notin> set s)"

text \<open>
  Reading placeholders back out of a piece of text, with the f-string conventions:
  \<^verbatim>\<open>{{\<close> is an escaped brace, \<^verbatim>\<open>{name}\<close> is a field. The first argument is
  \<open>None\<close> while scanning literal text and \<open>Some acc\<close> inside a field whose name so
  far is \<open>rev acc\<close>.
\<close>

fun scan_fields :: "string option \<Rightarrow> string \<Rightarrow> string list" where
  "scan_fields st [] = []"
| "scan_fields None [c] = []"
| "scan_fields None (c # d # cs) =
     (if c = CHR ''{'' \<and> d = CHR ''{'' then scan_fields None cs
      else if c = CHR ''{'' then scan_fields (Some []) (d # cs)
      else scan_fields None (d # cs))"
| "scan_fields (Some acc) (c # cs) =
     (if c = CHR ''}'' then rev acc # scan_fields None cs
      else scan_fields (Some (c # acc)) cs)"

definition extract_placeholders :: "string \<Rightarrow> string list" where
  "extract_placeholders s = scan_fields None s"

subsection \<open>The prompts of the notebooks\<close>

text \<open>
  \<^verbatim>\<open>get_sentiment(row)\<close> (04 - Text Classification) and \<^verbatim>\<open>get_answer(row)\<close>
  (05 - Question Answering) each build one prompt from one input string. The escape
  \<^verbatim>\<open>\n\<close> and the line breaks of the triple-quoted literal are both newline
  characters in the prompt.
\<close>

definition get_sentiment_template :: template where
  \<open>get_sentiment_template =
     [Lit ''Classify the sentiment of the following review as "positive", "neutral" and "negative". \<newline>\<newline>\<newline>                review: '',
      Placeholder ''row'',
      Lit '' \<newline>\<newline>                sentiment:\<newline>              '']\<close>

definition get_sentiment_prompt :: "string \<Rightarrow> string" where
  \<open>get_sentiment_prompt row =
     ''Classify the sentiment of the following review as "positive", "neutral" and "negative". \<newline>\<newline>\<newline>                review: ''
     @ row @ '' \<newline>\<newline>                sentiment:\<newline>              ''\<close>

definition get_answer_template :: template where
  \<open>get_answer_template =
     [Lit ''Answer the following question as precise as possible.\<newline>\<newline>\<newline>            question: '',
      Placeholder ''row'',
      Lit ''\<newline>            answer:\<newline>              '']\<close>

definition get_answer_prompt :: "string \<Rightarrow> string" where
  \<open>get_answer_prompt row =
     ''Answer the following question as precise as possible.\<newline>\<newline>\<newline>            question: ''
     @ row @ ''\<newline>            answer:\<newline>              ''\<close>

text \<open>
  The zero-shot cell of 05 - Question Answering reads \<^verbatim>\<open>context\<close> and
  \<^verbatim>\<open>question\<close> from the notebook's global namespace; its literal text contains
  the escaped braces \<^verbatim>\<open>{{Context:}}\<close> twice.
\<close>

definition zero_shot_template :: template where
  \<open>zero_shot_template =
     [Lit ''Answer the question given the context below as {Context:}. \<newline>\<newline>If the answer is not available in the {Context:} and you are not confident about the output,\<newline>please say "Information not available in provided context". \<newline>\<newline>\<newline>Context: '',
      Placeholder ''context'',
      Lit ''?\<newline>\<newline>Question: '',
      Placeholder ''question'',
      Lit '' \<newline>\<newline>Answer:\<newline>'']\<close>

definition zero_shot_prompt :: "string \<Rightarrow> string \<Rightarrow> string" where
  \<open>zero_shot_prompt context question =
     ''Answer the question given the context below as {Context:}. \<newline>\<newline>If the answer is not available in the {Context:} and you are not confident about the output,\<newline>please say "Information not available in provided context". \<newline>\<newline>\<newline>Context: ''
     @ context @ ''?\<newline>\<newline>Question: '' @ question @ '' \<newline>\<newline>Answer:\<newline>''\<close>

section \<open>The text-generation service and the notebook's effects\<close>

text \<open>
  \<^verbatim>\<open>generation_model.predict(prompt=...).text\<close> and
  \<^verbatim>\<open>code_completion_model.predict(prefix=...).text\<close> are calls to a remote service.
  The service is opaque: it is a parameter with a state of its own, so that its answers
  may depend on anything it has seen before. Nothing below inspects a response.
\<close>

type_synonym 'm service = "'m \<Rightarrow> string \<Rightarrow> string \<times> 'm"

text \<open>
  What a notebook run changes: the service's state, the requests made so far (each with
  the text it returned, oldest first) and the lines printed.
\<close>

record 'm world =
  service_state :: 'm
  calls :: "(string \<times> string) list"
  stdout :: "string list"

definition predict_text :: "'m service \<Rightarrow> string \<Rightarrow> 'm world \<Rightarrow> string \<times> 'm world" where
  "predict_text predict prompt w =
     (let (text, m') = predict (service_state w) prompt
      in (text, w\<lparr>service_state := m', calls := calls w @ [(prompt, text)]\<rparr>))"

definition print_line :: "string \<Rightarrow> 'm world \<Rightarrow> 'm world" where
  "print_line s w = w\<lparr>stdout := stdout w @ [s]\<rparr>"

text \<open>A service that replays a fixed list of responses, for concrete runs.\<close>

fun canned :: "string list service" where
  "canned [] prompt = ([], [])"
| "canned (r # rs) prompt = (r, rs)"

subsection \<open>The feedback loop of 02 - Code Completion\<close>

text \<open>
  \<^verbatim>\<open>
  i = 0
  while(i<3):
    response = code_completion_model.predict(prefix=prefix,)
    print(response.text)
    prefix = response.text
    i+=1
  \<close>
  The loop state is \<open>(prefix, i, world)\<close>; the bound is a parameter \<open>n\<close>, and the
  notebook's two cells run it with \<open>n = 3\<close> from their seed prefixes.
\<close>

function feedback_loop ::
  "'m service \<Rightarrow> int \<Rightarrow> string \<times> int \<times> 'm world \<Rightarrow> string \<times> int \<times> 'm world" where
  "feedback_loop predict n (pfx, i, w) =
     (if i < n then
        (let (text, w1) = predict_text predict pfx w;
             w2 = print_line text w1
         in feedback_loop predict n (text, i + 1, w2))
      else (pfx, i, w))"
  by pat_completeness auto
termination
  by (relation "measure (\<lambda>(predict, n, pfx, i, w). nat (n - i))") auto

definition feedback_cell :: "'m service \<Rightarrow> string \<Rightarrow> 'm world \<Rightarrow> string \<times> int \<times> 'm world" where
  "feedback_cell predict seed w = feedback_loop predict 3 (seed, 0, w)"

definition find_max_seed :: string where
  "find_max_seed = ''def find_max_element(list):''"

definition dog_seed :: string where
  \<open>dog_seed = ''class Dog:\<newline>              def bark(self):\<newline>                print("Woof!")\<newline>          ''\<close>

subsection \<open>Per-row prediction with \<^verbatim>\<open>Series.apply\<close>\<close>

text \<open>
  \<^verbatim>\<open>qa_data_df["answer_prediction"] = qa_data_df["question"].apply(get_answer)\<close>
  and the same for \<^verbatim>\<open>get_sentiment\<close>: the function is called on each element of
  the column in index order and the results form the new column. A data frame is the
  list of its rows.
\<close>

definition get_answer :: "'m service \<Rightarrow> string \<Rightarrow> 'm world \<Rightarrow> string \<times> 'm world" where
  "get_answer predict row w = predict_text predict (get_answer_prompt row) w"

definition get_sentiment :: "'m service \<Rightarrow> string \<Rightarrow> 'm world \<Rightarrow> string \<times> 'm world" where
  "get_sentiment predict row w = predict_text predict (get_sentiment_prompt row) w"

fun apply_series :: "(string \<Rightarrow> 'w \<Rightarrow> string \<times> 'w) \<Rightarrow> string list \<Rightarrow> 'w \<Rightarrow> string list \<times> 'w" where
  "apply_series f [] w = ([], w)"
| "apply_series f (x # xs) w =
     (let (y, w1) = f x w; (ys, w2) = apply_series f xs w1 in (y # ys, w2))"

record qa_row =
  question :: string
  answer_groundtruth :: string

record qa_answered = qa_row +
  answer_prediction :: string

record review_row =
  review :: string
  sentiment_groundtruth :: string

record review_classified = review_row +
  sentiment_prediction :: string

definition predict_answers :: "'m service \<Rightarrow> qa_row list \<Rightarrow> 'm world \<Rightarrow> qa_answered list \<times> 'm world" where
  "predict_answers predict df w =
     (let (preds, w') = apply_series (get_answer predict) (map question df) w
      in (map2 (\<lambda>r p. \<lparr>question = question r, answer_groundtruth = answer_groundtruth r,
                         answer_prediction = p\<rparr>) df preds, w'))"

definition predict_sentiments :: "'m service \<Rightarrow> review_row list \<Rightarrow> 'm world \<Rightarrow> review_classified list \<times> 'm world" where
  "predict_sentiments predict df w =
     (let (preds, w') = apply_series (get_sentiment predict) (map review df) w
      in (map2 (\<lambda>r p. \<lparr>review = review r, sentiment_groundtruth = sentiment_groundtruth r,
                         sentiment_prediction = p\<rparr>) df preds, w'))"

text \<open>A fresh run against the replaying service.\<close>

definition w0 :: "string list \<Rightarrow> string list world" where
  "w0 rs = \<lparr>service_state = rs, calls = [], stdout = []\<rparr>"

text \<open>The data frame of 04 - Text Classification.\<close>

definition review_data_df :: "review_row list" where
  "review_data_df =
     [\<lparr>review = ''i love this product. it does have everything i am looking for!'',
        sentiment_groundtruth = ''positive''\<rparr>,
      \<lparr>review = ''all i can say is that you will be happy after buying this product'',
        sentiment_groundtruth = ''positive''\<rparr>,
      \<lparr>review = ''its way too expensive and not worth the price'',
        sentiment_groundtruth = ''negative''\<rparr>,
      \<lparr>review = ''i am feeling okay. its neither good nor too bad.'',
        sentiment_groundtruth = ''neutral''\<rparr>]"

section \<open>Fuzzy matching of answers\<close>

text \<open>
  Modelled from the spec: \<^verbatim>\<open>fuzz.partial_ratio\<close> belongs to the fuzzywuzzy package, which
  the notebook installs (together with python-Levenshtein) and imports; its body is not
  in the repository. The specification (4.2, glossary) describes it as a partial-match
  ratio: the shorter string is aligned with a stretch of the longer one, the score is
  \<open>round(200 * M / T)\<close> for \<open>M\<close> matching characters, it is 100 when both strings are
  empty and 0 when exactly one is; the notebook gives the ratio as
  \<^verbatim>\<open>int(round((2.0 * M / T) * 100))\<close>. The definitions below follow these words along
  the package's routine:
  \<^verbatim>\<open>
  @utils.check_for_none
  @utils.check_for_equivalence
  @utils.check_empty_string
  def partial_ratio(s1, s2):
      if len(s1) <= len(s2): shorter = s1; longer = s2
      else:                  shorter = s2; longer = s1
      m = SequenceMatcher(None, shorter, longer)
      blocks = m.get_matching_blocks()
      scores = []
      for block in blocks:
          long_start = block[1] - block[0] if (block[1] - block[0]) > 0 else 0
          long_end = long_start + len(shorter)
          long_substr = longer[long_start:long_end]
          m2 = SequenceMatcher(None, shorter, long_substr)
          r = m2.ratio()
          if r > .995: return 100
          else: scores.append(r)
      return utils.intr(100 * max(scores))
  \<close>
  The arguments are strings, so \<^verbatim>\<open>check_for_none\<close> (score 0 for a \<^verbatim>\<open>None\<close>
  argument) never fires. A character of a string here is one code point of the Python
  string; strings with a code point above 255 are outside the model.

  Which blocks the matcher reports for a pair of strings depends on how it breaks ties
  between equally good alignments, so the blocks before the terminating one are a
  parameter (an \<open>aligner\<close>); the list always ends with the block
  \<open>(len(a), len(b), 0)\<close>. The results below hold for every aligner.
\<close>

type_synonym aligner = "string \<Rightarrow> string \<Rightarrow> (nat \<times> nat \<times> nat) list"

subsection \<open>Double precision\<close>

text \<open>
  The ratios and the mean are Python floats. A float is modelled by its exact rational
  value, and every arithmetic result is rounded to the nearest double, ties to the even
  significand: \<open>exponent x\<close> is the \<open>e\<close> with \<open>2^e \<le> |x| < 2^(e+1)\<close>, and the doubles
  in that binade are the multiples of \<open>2^(e-52)\<close>. Overflow and subnormal numbers are
  not modelled: the values rounded here are quotients of string lengths or of a sum of
  scores by a row count, and products of such a quotient by 100.
\<close>

fun floor_log2 :: "nat \<Rightarrow> nat" where
  "floor_log2 n = (if n < 2 then 0 else Suc (floor_log2 (n div 2)))"

definition exponent :: "rat \<Rightarrow> int" where
  "exponent x =
     (let a = \<bar>x\<bar>
      in if 1 \<le> a then int (floor_log2 (nat \<lfloor>a\<rfloor>))
         else - int (Suc (floor_log2 (nat (\<lceil>1 / a\<rceil> - 1)))))"

text \<open>
  \<^verbatim>\<open>utils.intr(n) = int(round(n))\<close>; Python 3 rounds a tie to the even neighbour.
\<close>

definition intr :: "rat \<Rightarrow> int" where
  "intr x =
     (let f = \<lfloor>x\<rfloor>; d = x - of_int f
      in if d < 1 / 2 then f else if 1 / 2 < d then f + 1
         else if even f then f else f + 1)"

definition to_double :: "rat \<Rightarrow> rat" where
  "to_double x =
     (if x = 0 then 0
      else let ulp = 2 powi (exponent x - 52) in of_int (intr (x / ulp)) * ulp)"

subsection \<open>The partial ratio\<close>

text \<open>
  The number of matching characters \<open>M\<close> of two strings: the length of their longest
  common subsequence. The matcher's ratio is the double quotient \<open>(T - d) / T\<close> for the
  insert/delete distance \<open>d\<close>, and \<open>T - d = 2 * M\<close>; it is 1.0 for two empty strings.
\<close>

fun lcs :: "string \<Rightarrow> string \<Rightarrow> nat" where
  "lcs [] ys = 0"
| "lcs xs [] = 0"
| "lcs (x # xs) (y # ys) =
     (if x = y then Suc (lcs xs ys) else max (lcs xs (y # ys)) (lcs (x # xs) ys))"

definition ratio :: "string \<Rightarrow> string \<Rightarrow> rat" where
  "ratio a b =
     (let T = length a + length b; M = lcs a b
      in if T = 0 then 1 else to_double (2 * of_nat M / of_nat T))"

definition py_max :: "rat list \<Rightarrow> error + rat" where
  "py_max xs = (case xs of [] \<Rightarrow> Inl ValueError | x # rest \<Rightarrow> Inr (fold max rest x))"

text \<open>
  The window of the longer string that a block aligns the shorter string with,
  \<^verbatim>\<open>longer[long_start:long_end]\<close>; a slice is cut off at the end of the string.
  Subtraction on \<open>nat\<close> stops at 0, which is the \<^verbatim>\<open>else 0\<close> of the source.
\<close>

definition long_substr :: "string \<Rightarrow> string \<Rightarrow> nat \<times> nat \<times> nat \<Rightarrow> string" where
  "long_substr shorter longer block =
     (case block of (i, j, k) \<Rightarrow>
        let long_start = (if j - i > 0 then j - i else 0);
            long_end = long_start + length shorter
        in take (long_end - long_start) (drop long_start longer))"

text \<open>
  The loop over the blocks, with the scores collected so far. The literal
  \<^verbatim>\<open>.995\<close> is the double nearest to 995/1000, and \<^verbatim>\<open>100 * max(scores)\<close> is
  a double product.
\<close>

fun score_blocks ::
  "string \<Rightarrow> string \<Rightarrow> (nat \<times> nat \<times> nat) list \<Rightarrow> rat list \<Rightarrow> error + int" where
  "score_blocks shorter longer [] scores =
     (case py_max scores of Inl e \<Rightarrow> Inl e | Inr m \<Rightarrow> Inr (intr (to_double (100 * m))))"
| "score_blocks shorter longer (block # blocks) scores =
     (let r = ratio shorter (long_substr shorter longer block)
      in if r > to_double (995 / 1000) then Inr 100
         else score_blocks shorter longer blocks (scores @ [r]))"

definition get_matching_blocks :: "aligner \<Rightarrow> string \<Rightarrow> string \<Rightarrow> (nat \<times> nat \<times> nat) list" where
  "get_matching_blocks align a b = align a b @ [(length a, length b, 0)]"

definition partial_ratio_body :: "aligner \<Rightarrow> string \<Rightarrow> string \<Rightarrow> error + int" where
  "partial_ratio_body align s1 s2 =
     (let (shorter, longer) = (if length s1 \<le> length s2 then (s1, s2) else (s2, s1));
          blocks = get_matching_blocks align shorter longer
      in score_blocks shorter longer blocks [])"

definition check_for_equivalence ::
  "(string \<Rightarrow> string \<Rightarrow> error + int) \<Rightarrow> string \<Rightarrow> string \<Rightarrow> error + int" where
  "check_for_equivalence func s1 s2 = (if s1 = s2 then Inr 100 else func s1 s2)"

definition check_empty_string ::
  "(string \<Rightarrow> string \<Rightarrow> error + int) \<Rightarrow> string \<Rightarrow> string \<Rightarrow> error + int" where
  "check_empty_string func s1 s2 =
     (if length s1 = 0 \<or> length s2 = 0 then Inr 0 else func s1 s2)"

definition partial_ratio :: "aligner \<Rightarrow> string \<Rightarrow> string \<Rightarrow> error + int" where
  "partial_ratio align = check_for_equivalence (check_empty_string (partial_ratio_body align))"

text \<open>
  The notebook's own function: \<^verbatim>\<open>get_fuzzy_match(df)\<close> returns
  \<^verbatim>\<open>fuzz.partial_ratio(df["answer_groundtruth"], df["answer_prediction"])\<close>
  for a row \<open>df\<close> of the data frame.
\<close>

definition get_fuzzy_match :: "aligner \<Rightarrow> qa_answered \<Rightarrow> error + int" where
  "get_fuzzy_match align df = partial_ratio align (answer_groundtruth df) (answer_prediction df)"

subsection \<open>The score column and its mean\<close>








section \<open>Rendering: general facts\<close>

lemma render_total:
  "render T B =
     (case find (\<lambda>n. B n = None) (placeholders T) of
        Some n \<Rightarrow> Inl (MissingBindingError n)
      | None \<Rightarrow> Inr (concat (map (value_of B) T)))"
proof (induction T B rule: render.induct)
  case (1 B)
  show ?case by simp
next
  case (2 s T B)
  then show ?case by (simp split: option.splits)
next
  case (3 n T B)
  then show ?case by (simp split: option.splits)
qed

lemma subseq_literal_text: "subseq (literal_text T) (concat (map (value_of B) T))"
proof (induction T)
  case Nil
  show ?case by simp
next
  case (Cons p T)
  show ?case
  proof (cases p)
    case (Lit s)
    with Cons show ?thesis by (simp add: list_emb_append_mono)
  next
    case (Placeholder n)
    with Cons show ?thesis by (simp add: list_emb_append2)
  qed
qed

lemma scan_fields_brace_free: "CHR ''{'' \<notin> set s \<Longrightarrow> scan_fields None s = []"
proof (induction s rule: length_induct)
  case (1 s)
  show ?case
  proof (cases s)
    case Nil
    then show ?thesis by simp
  next
    case (Cons c cs)
    show ?thesis
    proof (cases cs)
      case Nil
      with Cons show ?thesis by simp
    next
      case (Cons d ds)
      with \<open>s = c # cs\<close> 1 show ?thesis by auto
    qed
  qed
qed

lemma brace_free_concat:
  "(\<forall>p \<in> set T. brace_free (value_of B p)) \<Longrightarrow> brace_free (concat (map (value_of B) T))"
  by (induction T) (auto simp: brace_free_def)

subsection \<open>The notebooks' prompts are instances of rendering\<close>

lemma render_get_sentiment:
  "render get_sentiment_template [''row'' \<mapsto> s] = Inr (get_sentiment_prompt s)"
  by (simp add: get_sentiment_template_def get_sentiment_prompt_def)

lemma render_get_answer:
  "render get_answer_template [''row'' \<mapsto> s] = Inr (get_answer_prompt s)"
  by (simp add: get_answer_template_def get_answer_prompt_def)

lemma render_zero_shot:
  "render zero_shot_template [''context'' \<mapsto> c, ''question'' \<mapsto> q] = Inr (zero_shot_prompt c q)"
  by (simp add: zero_shot_template_def zero_shot_prompt_def)

section \<open>Properties of the prompt builders\<close>

text \<open>
  Claim C10. For every input string \<open>s\<close>, the prompt built by \<^verbatim>\<open>get_sentiment\<close> and
  the prompt built by \<^verbatim>\<open>get_answer\<close> is the template's first literal segment,
  then \<open>s\<close> itself, then the template's last literal segment: the input stands in the
  prompt verbatim and contiguously, with no escaping, truncation or change of case.
\<close>

theorem prompt_contains_input:
  "(\<exists>pre post. get_sentiment_template = [Lit pre, Placeholder ''row'', Lit post]
        \<and> get_sentiment_prompt s = pre @ s @ post)
   \<and> (\<exists>pre post. get_answer_template = [Lit pre, Placeholder ''row'', Lit post]
        \<and> get_answer_prompt s = pre @ s @ post)
   \<and> sublist s (get_sentiment_prompt s) \<and> sublist s (get_answer_prompt s)"
proof (intro conjI)
  show "\<exists>pre post. get_sentiment_template = [Lit pre, Placeholder ''row'', Lit post]
        \<and> get_sentiment_prompt s = pre @ s @ post"
    unfolding get_sentiment_template_def get_sentiment_prompt_def
    by (rule exI, rule exI, rule conjI, rule refl, rule refl)
  show "\<exists>pre post. get_answer_template = [Lit pre, Placeholder ''row'', Lit post]
        \<and> get_answer_prompt s = pre @ s @ post"
    unfolding get_answer_template_def get_answer_prompt_def
    by (rule exI, rule exI, rule conjI, rule refl, rule refl)
  show "sublist s (get_sentiment_prompt s)"
    unfolding get_sentiment_prompt_def by (rule sublist_appendI)
  show "sublist s (get_answer_prompt s)"
    unfolding get_answer_prompt_def by (rule sublist_appendI)
qed

theorem prompt_contains_input_witness:
  "sublist ''NOT {bad}, 10/10 \<newline> '' (get_sentiment_prompt ''NOT {bad}, 10/10 \<newline> '')
   \<and> sublist ''NOT {bad}, 10/10 \<newline> '' (get_answer_prompt ''NOT {bad}, 10/10 \<newline> '')"
  using prompt_contains_input [of "''NOT {bad}, 10/10 \<newline> ''"] by simp

text \<open>
  Claim C3, as amended. If the bindings cover every placeholder of a template, rendering
  succeeds, the output is the template with each placeholder replaced by its bound value,
  and the literal text of the template is preserved in order. If moreover no literal
  segment and no bound value used contains a brace, the output contains no brace and
  reading placeholders back out of it yields none.
\<close>

theorem render_covered:
  assumes cover: "set (placeholders T) \<subseteq> dom B"
  shows "\<exists>out. render T B = Inr out
           \<and> out = concat (map (value_of B) T)
           \<and> subseq (literal_text T) out
           \<and> ((\<forall>p \<in> set T. brace_free (value_of B p))
                \<longrightarrow> brace_free out \<and> extract_placeholders out = [])"
proof -
  have "find (\<lambda>n. B n = None) (placeholders T) = None"
    using cover by (auto simp: find_None_iff)
  then have r: "render T B = Inr (concat (map (value_of B) T))"
    by (simp add: render_total)
  have b: "brace_free (concat (map (value_of B) T)) \<Longrightarrow>
        extract_placeholders (concat (map (value_of B) T)) = []"
    by (simp add: brace_free_def extract_placeholders_def scan_fields_brace_free)
  show ?thesis
    using r subseq_literal_text [of T B] brace_free_concat [of T B] b by blast
qed

theorem render_covered_witness:
  "render get_sentiment_template [''row'' \<mapsto> ''its way too expensive''] =
     Inr (get_sentiment_prompt ''its way too expensive'')
   \<and> brace_free (get_sentiment_prompt ''its way too expensive'')
   \<and> extract_placeholders (get_sentiment_prompt ''its way too expensive'') = []"
proof -
  let ?B = "[''row'' \<mapsto> ''its way too expensive'']"
  have c: "set (placeholders get_sentiment_template) \<subseteq> dom ?B"
    by (simp add: get_sentiment_template_def)
  have v: "\<forall>p \<in> set get_sentiment_template. brace_free (value_of ?B p)"
    by (simp add: get_sentiment_template_def brace_free_def)
  have r: "render get_sentiment_template ?B = Inr (get_sentiment_prompt ''its way too expensive'')"
    by (rule render_get_sentiment)
  show ?thesis
    using render_covered [OF c] v r by auto
qed

text \<open>
  The claim as first stated promised a brace-free output for every covering binding set.
  A bound value is interpolated unchanged, so the question \<^verbatim>\<open>{row}\<close> put through
  \<^verbatim>\<open>get_answer\<close> leaves \<^verbatim>\<open>{row}\<close> in the prompt; and the zero-shot prompt of
  the notebook carries the escaped literal \<^verbatim>\<open>{Context:}\<close> into every output.
\<close>

theorem render_braces_counterexample:
  "set (placeholders get_answer_template) \<subseteq> dom [''row'' \<mapsto> ''{row}'']
   \<and> render get_answer_template [''row'' \<mapsto> ''{row}''] = Inr (get_answer_prompt ''{row}'')
   \<and> CHR ''{'' \<in> set (get_answer_prompt ''{row}'')
   \<and> extract_placeholders (get_answer_prompt ''{row}'') = [''row'']
   \<and> set (placeholders zero_shot_template) \<subseteq> dom [''context'' \<mapsto> ''c'', ''question'' \<mapsto> ''q'']
   \<and> render zero_shot_template [''context'' \<mapsto> ''c'', ''question'' \<mapsto> ''q''] = Inr (zero_shot_prompt ''c'' ''q'')
   \<and> extract_placeholders (zero_shot_prompt ''c'' ''q'') = [''Context:'', ''Context:'']"
  by (simp add: get_answer_template_def get_answer_prompt_def extract_placeholders_def
        zero_shot_template_def zero_shot_prompt_def)

text \<open>
  Claim C6. If some placeholder of the template has no binding, rendering fails with
  MissingBindingError carrying the name of an unbound placeholder of the template (the
  leftmost one); no output string is produced, so nothing is dropped or filled with a
  default.
\<close>

theorem render_missing_binding:
  assumes "n \<in> set (placeholders T)" and "B n = None"
  shows "\<exists>m. m \<in> set (placeholders T) \<and> B m = None
           \<and> find (\<lambda>k. B k = None) (placeholders T) = Some m
           \<and> render T B = Inl (MissingBindingError m)"
proof -
  from assms obtain m where m: "find (\<lambda>k. B k = None) (placeholders T) = Some m"
    by (cases "find (\<lambda>k. B k = None) (placeholders T)") (auto simp: find_None_iff)
  then have "m \<in> set (placeholders T)" and "B m = None"
    by (auto simp: find_Some_iff)
  with m show ?thesis by (simp add: render_total)
qed

theorem render_missing_binding_witness:
  "render zero_shot_template [''question'' \<mapsto> ''How is high availability achieved?'']
     = Inl (MissingBindingError ''context'')"
proof -
  let ?B = "[''question'' \<mapsto> ''How is high availability achieved?'']"
  have a: "''context'' \<in> set (placeholders zero_shot_template)"
    by (simp add: zero_shot_template_def)
  have b: "?B ''context'' = None" by simp
  from render_missing_binding [of "''context''" zero_shot_template ?B, OF a b]
  obtain m where "find (\<lambda>k. ?B k = None) (placeholders zero_shot_template) = Some m"
    and r: "render zero_shot_template ?B = Inl (MissingBindingError m)" by blast
  moreover have "find (\<lambda>k. ?B k = None) (placeholders zero_shot_template) = Some ''context''"
    by (simp add: zero_shot_template_def)
  ultimately show ?thesis by simp
qed

section \<open>The service is called once per step, in order\<close>

declare feedback_loop.simps [simp del]

lemma predict_text_calls:
  "predict_text predict prompt w = (text, w1) \<Longrightarrow>
     calls w1 = calls w @ [(prompt, text)] \<and> stdout w1 = stdout w"
  by (auto simp: predict_text_def split: prod.splits)

lemma feedback_loop_trace:
  "feedback_loop predict n (pfx, i, w) = (pfx', i', w') \<Longrightarrow>
     \<exists>cs. calls w' = calls w @ cs \<and> length cs = nat (n - i)
        \<and> map fst cs = butlast (pfx # map snd cs)
        \<and> pfx' = last (pfx # map snd cs)
        \<and> stdout w' = stdout w @ map snd cs"
proof (induction predict n "(pfx, i, w)" arbitrary: pfx i w rule: feedback_loop.induct)
  case (1 predict n pfx i w)
  show ?case
  proof (cases "i < n")
    case False
    with "1.prems" show ?thesis by (simp add: feedback_loop.simps)
  next
    case True
    obtain t w1 where p: "predict_text predict pfx w = (t, w1)"
      by (cases "predict_text predict pfx w")
    from p have c1: "calls w1 = calls w @ [(pfx, t)]" and s1: "stdout w1 = stdout w"
      using predict_text_calls by blast+
    let ?w2 = "print_line t w1"
    have "feedback_loop predict n (pfx, i, w) = feedback_loop predict n (t, i + 1, ?w2)"
      using True p by (subst feedback_loop.simps) simp
    with "1.prems" have r: "feedback_loop predict n (t, i + 1, ?w2) = (pfx', i', w')"
      by simp
    from "1.hyps" [OF True p [symmetric] refl refl r]
    obtain cs where cs: "calls w' = calls ?w2 @ cs" "length cs = nat (n - (i + 1))"
      "map fst cs = butlast (t # map snd cs)" "pfx' = last (t # map snd cs)"
      "stdout w' = stdout ?w2 @ map snd cs" by blast
    let ?cs = "(pfx, t) # cs"
    have "calls w' = calls w @ ?cs" using cs(1) c1 by (simp add: print_line_def)
    moreover have "length ?cs = nat (n - i)" using cs(2) True by simp
    moreover have "map fst ?cs = butlast (pfx # map snd ?cs)" using cs(3) by simp
    moreover have "pfx' = last (pfx # map snd ?cs)" using cs(4) by simp
    moreover have "stdout w' = stdout w @ map snd ?cs" using cs(5) s1 by (simp add: print_line_def)
    ultimately show ?thesis by blast
  qed
qed

lemma apply_series_trace:
  assumes f: "\<And>x w y w1. f x w = (y, w1) \<Longrightarrow> calls w1 = calls w @ [(g x, y)]"
  shows "apply_series f xs w = (ys, w') \<Longrightarrow>
           length ys = length xs \<and> calls w' = calls w @ zip (map g xs) ys"
proof (induction xs arbitrary: w ys w')
  case Nil
  then show ?case by simp
next
  case (Cons x xs)
  obtain y w1 where a: "f x w = (y, w1)" by (cases "f x w")
  obtain zs w2 where b: "apply_series f xs w1 = (zs, w2)" by (cases "apply_series f xs w1")
  from Cons.prems a b have e: "ys = y # zs" "w' = w2" by auto
  from Cons.IH [OF b] have "length zs = length xs" "calls w2 = calls w1 @ zip (map g xs) zs"
    by auto
  with f [OF a] e show ?case by simp
qed

lemma get_answer_call:
  "get_answer predict x w = (y, w1) \<Longrightarrow> calls w1 = calls w @ [(get_answer_prompt x, y)]"
  by (simp add: get_answer_def predict_text_calls)

lemma get_sentiment_call:
  "get_sentiment predict x w = (y, w1) \<Longrightarrow> calls w1 = calls w @ [(get_sentiment_prompt x, y)]"
  by (simp add: get_sentiment_def predict_text_calls)

lemma feedback_cell_run:
  "feedback_cell canned find_max_seed (w0 [''a'', ''b'', ''c'', ''d'']) =
     (''c'', 3, \<lparr>service_state = [''d''],
        calls = [(find_max_seed, ''a''), (''a'', ''b''), (''b'', ''c'')],
        stdout = [''a'', ''b'', ''c'']\<rparr>)"
  by (simp add: feedback_cell_def feedback_loop.simps predict_text_def print_line_def w0_def)

lemma chain_nth:
  assumes "map fst cs = butlast (p # map snd cs)" and "1 \<le> k" and "k < length cs"
  shows "fst (cs ! k) = snd (cs ! (k - 1))"
proof -
  have "fst (cs ! k) = map fst cs ! k" using assms(3) by simp
  also have "\<dots> = butlast (p # map snd cs) ! k" using assms(1) by simp
  also have "\<dots> = (p # map snd cs) ! k" by (rule nth_butlast) (use assms(3) in auto)
  also have "\<dots> = map snd cs ! (k - 1)" using assms(2) by (simp add: nth_Cons')
  also have "\<dots> = snd (cs ! (k - 1))" using assms(2,3) by simp
  finally show ?thesis .
qed



text \<open>
  Claim C9. In the feedback loop each step replaces the prefix by the response just
  received: the first request carries the seed, the request of every later step \<open>k\<close>
  is exactly the text returned at step \<open>k - 1\<close>, and after the loop the prefix is
  the last response alone (the seed itself if no step ran). The printed lines are the
  responses in order.
\<close>

theorem feedback_loop_replaces_prefix:
  "case feedback_loop predict n (pfx, 0, w) of
      (pfx', i', w') \<Rightarrow>
        (let cs = drop (length (calls w)) (calls w') in
           calls w' = calls w @ cs
           \<and> (\<forall>k. 1 \<le> k \<and> k < length cs \<longrightarrow> fst (cs ! k) = snd (cs ! (k - 1)))
           \<and> (cs \<noteq> [] \<longrightarrow> fst (cs ! 0) = pfx \<and> pfx' = snd (last cs))
           \<and> (cs = [] \<longrightarrow> pfx' = pfx)
           \<and> stdout w' = stdout w @ map snd cs)"
proof -
  obtain pfx' i' w' where r: "feedback_loop predict n (pfx, 0, w) = (pfx', i', w')"
    by (cases "feedback_loop predict n (pfx, 0, w)")
  from feedback_loop_trace [OF r]
  obtain cs where cs: "calls w' = calls w @ cs" "map fst cs = butlast (pfx # map snd cs)"
    "pfx' = last (pfx # map snd cs)" "stdout w' = stdout w @ map snd cs" by blast
  have d: "drop (length (calls w)) (calls w') = cs" using cs(1) by simp
  have a: "\<forall>k. 1 \<le> k \<and> k < length cs \<longrightarrow> fst (cs ! k) = snd (cs ! (k - 1))"
    using chain_nth [OF cs(2)] by blast
  have b: "cs \<noteq> [] \<longrightarrow> fst (cs ! 0) = pfx \<and> pfx' = snd (last cs)"
  proof
    assume ne: "cs \<noteq> []"
    then obtain c cs' where c: "cs = c # cs'" by (cases cs) auto
    with cs(2) have "fst (cs ! 0) = pfx" by simp
    moreover have "pfx' = snd (last cs)" using cs(3) ne by (simp add: last_map)
    ultimately show "fst (cs ! 0) = pfx \<and> pfx' = snd (last cs)" by simp
  qed
  have c: "cs = [] \<longrightarrow> pfx' = pfx" using cs(3) by simp
  have "let cs = drop (length (calls w)) (calls w') in
           calls w' = calls w @ cs
           \<and> (\<forall>k. 1 \<le> k \<and> k < length cs \<longrightarrow> fst (cs ! k) = snd (cs ! (k - 1)))
           \<and> (cs \<noteq> [] \<longrightarrow> fst (cs ! 0) = pfx \<and> pfx' = snd (last cs))
           \<and> (cs = [] \<longrightarrow> pfx' = pfx)
           \<and> stdout w' = stdout w @ map snd cs"
    unfolding Let_def d using cs(1,4) a b c by blast
  then show ?thesis unfolding r by simp
qed

theorem feedback_loop_replaces_prefix_witness:
  "fst (feedback_cell canned dog_seed (w0 [''x = 1'', ''y = 2'', ''z = 3''])) = ''z = 3''
   \<and> map fst (calls (snd (snd (feedback_cell canned dog_seed (w0 [''x = 1'', ''y = 2'', ''z = 3''])))))
       = [dog_seed, ''x = 1'', ''y = 2'']"
proof -
  let ?w = "w0 [''x = 1'', ''y = 2'', ''z = 3'']"
  have run: "feedback_loop canned 3 (dog_seed, 0, ?w) =
     (''z = 3'', 3, \<lparr>service_state = [],
        calls = [(dog_seed, ''x = 1''), (''x = 1'', ''y = 2''), (''y = 2'', ''z = 3'')],
        stdout = [''x = 1'', ''y = 2'', ''z = 3'']\<rparr>)"
    by (simp add: feedback_loop.simps predict_text_def print_line_def w0_def)
  have "calls ?w = []" by (simp add: w0_def)
  with run feedback_loop_replaces_prefix [where predict = canned and n = 3 and pfx = dog_seed
      and w = ?w]
  show ?thesis by (simp add: feedback_cell_def)
qed

text \<open>
  Claim C8. Predicting over a data frame yields one output row per input row, in
  the same order: the output has the input's length, row \<open>i\<close> keeps the input and
  the ground truth of input row \<open>i\<close>, the \<open>i\<close>-th request made is the prompt built
  from input row \<open>i\<close>, and the prediction stored in row \<open>i\<close> is the text returned
  for that request.
\<close>

theorem predictions_in_input_order:
  "(case predict_answers predict df w of
      (out, w') \<Rightarrow>
        length out = length df
        \<and> map question out = map question df
        \<and> map answer_groundtruth out = map answer_groundtruth df
        \<and> calls w' = calls w @ zip (map (\<lambda>r. get_answer_prompt (question r)) df)
                                    (map answer_prediction out))
   \<and> (case predict_sentiments predict rv w of
      (out, w') \<Rightarrow>
        length out = length rv
        \<and> map review out = map review rv
        \<and> map sentiment_groundtruth out = map sentiment_groundtruth rv
        \<and> calls w' = calls w @ zip (map (\<lambda>r. get_sentiment_prompt (review r)) rv)
                                    (map sentiment_prediction out))"
proof (rule conjI)
  obtain ps w1 where a: "apply_series (get_answer predict) (map question df) w = (ps, w1)"
    by (cases "apply_series (get_answer predict) (map question df) w")
  from apply_series_trace [of "get_answer predict" get_answer_prompt, OF get_answer_call a]
  have l: "length ps = length df"
    and c: "calls w1 = calls w @ zip (map get_answer_prompt (map question df)) ps" by auto
  let ?out = "map2 (\<lambda>r p. \<lparr>question = question r, answer_groundtruth = answer_groundtruth r,
                         answer_prediction = p\<rparr>) df ps"
  have q: "map question ?out = map question df" using l
    by (induction df ps rule: list_induct2') auto
  have g: "map answer_groundtruth ?out = map answer_groundtruth df" using l
    by (induction df ps rule: list_induct2') auto
  have p: "map answer_prediction ?out = ps" using l
    by (induction df ps rule: list_induct2') auto
  show "case predict_answers predict df w of
      (out, w') \<Rightarrow>
        length out = length df
        \<and> map question out = map question df
        \<and> map answer_groundtruth out = map answer_groundtruth df
        \<and> calls w' = calls w @ zip (map (\<lambda>r. get_answer_prompt (question r)) df)
                                    (map answer_prediction out)"
    using a l c q g p by (simp add: predict_answers_def comp_def)
next
  obtain ps w1 where a: "apply_series (get_sentiment predict) (map review rv) w = (ps, w1)"
    by (cases "apply_series (get_sentiment predict) (map review rv) w")
  from apply_series_trace [of "get_sentiment predict" get_sentiment_prompt, OF get_sentiment_call a]
  have l: "length ps = length rv"
    and c: "calls w1 = calls w @ zip (map get_sentiment_prompt (map review rv)) ps" by auto
  let ?out = "map2 (\<lambda>r p. \<lparr>review = review r, sentiment_groundtruth = sentiment_groundtruth r,
                         sentiment_prediction = p\<rparr>) rv ps"
  have q: "map review ?out = map review rv" using l
    by (induction rv ps rule: list_induct2') auto
  have g: "map sentiment_groundtruth ?out = map sentiment_groundtruth rv" using l
    by (induction rv ps rule: list_induct2') auto
  have p: "map sentiment_prediction ?out = ps" using l
    by (induction rv ps rule: list_induct2') auto
  show "case predict_sentiments predict rv w of
      (out, w') \<Rightarrow>
        length out = length rv
        \<and> map review out = map review rv
        \<and> map sentiment_groundtruth out = map sentiment_groundtruth rv
        \<and> calls w' = calls w @ zip (map (\<lambda>r. get_sentiment_prompt (review r)) rv)
                                    (map sentiment_prediction out)"
    using a l c q g p by (simp add: predict_sentiments_def comp_def)
qed

theorem predictions_in_input_order_witness:
  "length (fst (predict_sentiments canned review_data_df
             (w0 [''positive'', ''positive'', ''negative'', ''neutral'']))) = 4
   \<and> map review (fst (predict_sentiments canned review_data_df
             (w0 [''positive'', ''positive'', ''negative'', ''neutral''])))
       = map review review_data_df
   \<and> map sentiment_prediction (fst (predict_sentiments canned review_data_df
             (w0 [''positive'', ''positive'', ''negative'', ''neutral''])))
       = [''positive'', ''positive'', ''negative'', ''neutral'']"
proof -
  let ?w = "w0 [''positive'', ''positive'', ''negative'', ''neutral'']"
  have p: "map sentiment_prediction (fst (predict_sentiments canned review_data_df ?w))
       = [''positive'', ''positive'', ''negative'', ''neutral'']"
    by (simp add: predict_sentiments_def get_sentiment_def predict_text_def w0_def
          review_data_df_def)
  have l: "length review_data_df = 4" by (simp add: review_data_df_def)
  show ?thesis
    using predictions_in_input_order [where predict = canned and rv = review_data_df
        and df = "[]" and w = ?w] p l
    by (simp add: case_prod_beta)
qed

section \<open>Scoring\<close>

subsection \<open>Rounding to a double\<close>

declare floor_log2.simps [simp del]





lemma intr_of_int: "intr (of_int k) = k"
  by (simp add: intr_def Let_def)

lemma to_double_one: "to_double 1 = 1"
  by code_simp

lemma threshold_below_one: "to_double (995 / 1000) < 1"
  by code_simp

text \<open>
  Two values to compare with Python: \<^verbatim>\<open>167 / 3\<close> is 55.666666666666664, and
  \<^verbatim>\<open>100 * (46 / 80)\<close> is 57.49999999999999, which rounds to 57 although
  \<open>100 * 46 / 80\<close> is the tie 57.5.
\<close>

lemma to_double_167_3: "to_double (167 / 3) = 7834386851779925 / 2 ^ 47"
  by code_simp

lemma tie_46_80: "intr (to_double (100 * to_double (46 / 80))) = 57"
  by code_simp

subsection \<open>The partial ratio\<close>

lemma lcs_refl: "lcs xs xs = length xs"
  by (induction xs) auto

lemma ratio_refl: "ratio a a = 1"
  by (simp add: ratio_def lcs_refl Let_def to_double_one)

lemma score_blocks_exact_window:
  assumes "b \<in> set blocks" and "long_substr shorter longer b = shorter"
  shows "score_blocks shorter longer blocks scores = Inr 100"
  using assms(1)
proof (induction blocks arbitrary: scores)
  case Nil
  then show ?case by simp
next
  case (Cons c cs)
  show ?case
  proof (cases "to_double (995 / 1000) < ratio shorter (long_substr shorter longer c)")
    case True
    then show ?thesis by (simp add: Let_def)
  next
    case False
    with assms(2) have "c \<noteq> b" using threshold_below_one by (auto simp: ratio_refl)
    with Cons.prems have "b \<in> set cs" by simp
    from Cons.IH [OF this] False show ?thesis by (simp add: Let_def)
  qed
qed


lemma partial_ratio_cases:
  "partial_ratio align X Y =
     (if X = Y then Inr 100
      else if X = [] \<or> Y = [] then Inr 0
      else if length X \<le> length Y
        then score_blocks X Y (get_matching_blocks align X Y) []
        else score_blocks Y X (get_matching_blocks align Y X) [])"
  by (simp add: partial_ratio_def check_for_equivalence_def check_empty_string_def
        partial_ratio_body_def Let_def)


lemma partial_ratio_suffix:
  assumes "longer = extra @ shorter" and "extra \<noteq> []" and "shorter \<noteq> []"
  shows "partial_ratio align longer shorter = Inr 100"
    and "partial_ratio align shorter longer = Inr 100"
proof -
  let ?b = "(length shorter, length longer, 0::nat)"
  have w: "long_substr shorter longer ?b = shorter"
    using assms(1) by (simp add: long_substr_def Let_def)
  have m: "?b \<in> set (get_matching_blocks align shorter longer)"
    by (simp add: get_matching_blocks_def)
  have s: "score_blocks shorter longer (get_matching_blocks align shorter longer) [] = Inr 100"
    using m w by (rule score_blocks_exact_window)
  have ne: "longer \<noteq> shorter" "longer \<noteq> []" "\<not> length longer \<le> length shorter"
    "length shorter \<le> length longer"
    using assms by auto
  show "partial_ratio align longer shorter = Inr 100"
    using s ne assms(3) by (simp add: partial_ratio_cases)
  show "partial_ratio align shorter longer = Inr 100"
    using s ne assms(3) by (auto simp: partial_ratio_cases)
qed

subsection \<open>The score column and its mean\<close>






text \<open>
  Claim C4. The score of a string against itself is 100, for the empty string too; the
  score of the empty string against a non-empty string, in either order, is 0.
\<close>

theorem score_edge_cases:
  "partial_ratio align X X = Inr 100
   \<and> partial_ratio align [] [] = Inr 100
   \<and> (Y \<noteq> [] \<longrightarrow> partial_ratio align [] Y = Inr 0 \<and> partial_ratio align Y [] = Inr 0)
   \<and> get_fuzzy_match align \<lparr>question = q, answer_groundtruth = X, answer_prediction = X\<rparr>
       = Inr 100"
  by (auto simp: partial_ratio_cases get_fuzzy_match_def)

theorem score_edge_cases_witness:
  "partial_ratio (\<lambda>a b. []) ''Marie Curie'' ''Marie Curie'' = Inr 100
   \<and> partial_ratio (\<lambda>a b. []) [] [] = Inr 100
   \<and> partial_ratio (\<lambda>a b. []) [] ''abc'' = Inr 0
   \<and> partial_ratio (\<lambda>a b. []) ''abc'' [] = Inr 0"
  using score_edge_cases [of "\<lambda>a b. []" "''Marie Curie''" "''abc''" "[]"] by simp

text \<open>
  Claim C5. \<^verbatim>\<open>World Wide Web\<close> against itself scores 100, and
  \<^verbatim>\<open>The Pacific Ocean\<close> against \<^verbatim>\<open>Pacific Ocean\<close> scores at least 90, in fact
  exactly 100: the shorter string is the window that the terminating block selects.
\<close>

theorem score_documented_examples:
  "get_fuzzy_match align \<lparr>question = q1, answer_groundtruth = ''World Wide Web'',
       answer_prediction = ''World Wide Web''\<rparr> = Inr 100
   \<and> (\<exists>v. get_fuzzy_match align \<lparr>question = q3, answer_groundtruth = ''The Pacific Ocean'',
       answer_prediction = ''Pacific Ocean''\<rparr> = Inr v \<and> 90 \<le> v \<and> v = 100)"
proof -
  have "partial_ratio align ''The Pacific Ocean'' ''Pacific Ocean'' = Inr 100"
    by (rule partial_ratio_suffix(1) [where extra = "''The ''"]) simp_all
  then show ?thesis by (simp add: get_fuzzy_match_def partial_ratio_cases)
qed

theorem score_documented_examples_witness:
  "get_fuzzy_match (\<lambda>a b. [(0, 4, 13)]) \<lparr>question = ''What is the name of the largest ocean?'',
       answer_groundtruth = ''The Pacific Ocean'', answer_prediction = ''Pacific Ocean''\<rparr>
     = Inr 100"
  using score_documented_examples [of "\<lambda>a b. [(0, 4, 13)]" "[]"
      "''What is the name of the largest ocean?''"]
  by simp




end
